theory Spec2Isabelle
  imports Main
begin

section \<open>Values of the module\<close>

text \<open>
  The module \<^verbatim>\<open>src/index.js\<close> has two functions, \<^verbatim>\<open>getBrowser\<close> and
  \<^verbatim>\<open>getCookies\<close>. Both only orchestrate calls to collaborators (puppeteer,
  \<^verbatim>\<open>process.env\<close>, \<^verbatim>\<open>fs\<close>, \<^verbatim>\<open>JSON\<close>, \<^verbatim>\<open>console\<close>). The model
  makes every such call an event of a trace and takes the collaborators' answers from
  a record, so that each \<^verbatim>\<open>throw\<close>, \<^verbatim>\<open>catch\<close> and \<^verbatim>\<open>finally\<close> of the
  source is a branch of a HOL function.

  A value of type \<^verbatim>\<open>string | undefined\<close> is a \<open>string option\<close>, with
  \<open>None\<close> for \<^verbatim>\<open>undefined\<close> (also what reading an absent property or an
  unset environment variable gives).
\<close>

definition truthy :: "string option \<Rightarrow> bool" where
  \<comment> \<open>JavaScript truthiness on \<^verbatim>\<open>string | undefined\<close>: only \<^verbatim>\<open>undefined\<close> and \<^verbatim>\<open>""\<close> are falsy.\<close>
  "truthy v = (case v of None \<Rightarrow> False | Some s \<Rightarrow> s \<noteq> [])"

definition js_or :: "string option \<Rightarrow> string option \<Rightarrow> string option" where
  \<comment> \<open>The operator \<^verbatim>\<open>a || b\<close>.\<close>
  "js_or a b = (if truthy a then a else b)"

definition if_truthy :: "string option \<Rightarrow> string option" where
  \<comment> \<open>The string a branch \<^verbatim>\<open>if (v) { ... v ... }\<close> sees: \<open>Some s\<close> exactly when \<open>v\<close> is truthy.\<close>
  "if_truthy v = (case v of None \<Rightarrow> None | Some s \<Rightarrow> if s \<noteq> [] then Some s else None)"

record connectionData =
  executablePath :: "string option"
  browserWSEndpoint :: "string option"

text \<open>
  A cookie object as the documentation of \<^verbatim>\<open>getCookies\<close> gives it. The module never
  looks inside a cookie; it passes arrays of them on.
\<close>

record cookie =
  cookie_name :: string
  cookie_value :: string
  cookie_domain :: string
  cookie_path :: string
  cookie_expires :: "int option"
  cookie_httpOnly :: bool
  cookie_secure :: bool
  cookie_sameSite :: "string option"

text \<open>The exceptions, named after the call that raises them.\<close>

datatype error =
    ConfigurationError  \<comment> \<open>\<^verbatim>\<open>new Error("Set either PUPPETEER_EXECUTABLE_PATH or WEBHOOK_URL ...")\<close>\<close>
  | ConnectionError     \<comment> \<open>\<^verbatim>\<open>puppeteer.connect\<close> rejected\<close>
  | LaunchError         \<comment> \<open>\<^verbatim>\<open>puppeteer.launch\<close> rejected\<close>
  | SeedingError        \<comment> \<open>\<^verbatim>\<open>browser.setCookie\<close> rejected\<close>
  | NewPageError        \<comment> \<open>\<^verbatim>\<open>browser.newPage\<close> rejected\<close>
  | NavigationError     \<comment> \<open>\<^verbatim>\<open>page.goto\<close> rejected\<close>
  | PersistenceError    \<comment> \<open>\<^verbatim>\<open>fs.writeFileSync\<close> threw\<close>

text \<open>A browser handle remembers how it was obtained.\<close>

datatype browser = Connected string | Launched string

datatype event =
    Connect string            \<comment> \<open>\<^verbatim>\<open>puppeteer.connect({browserWSEndpoint})\<close>\<close>
  | Launch string bool        \<comment> \<open>\<^verbatim>\<open>puppeteer.launch({executablePath, headless})\<close>\<close>
  | SetCookie "cookie list"   \<comment> \<open>\<^verbatim>\<open>browser.setCookie(...cookies)\<close>, one call with all of them\<close>
  | NewPage                   \<comment> \<open>\<^verbatim>\<open>browser.newPage()\<close>\<close>
  | Goto string               \<comment> \<open>\<^verbatim>\<open>page.goto(url)\<close>\<close>
  | OnResponse                \<comment> \<open>\<^verbatim>\<open>page.on('response', ...)\<close>\<close>
  | WaitForFunction           \<comment> \<open>\<^verbatim>\<open>page.waitForFunction(() => false, {timeout: 0})\<close>\<close>
  | ReadCookies               \<comment> \<open>\<^verbatim>\<open>browser.cookies()\<close> in the listener\<close>
  | WriteFile string string   \<comment> \<open>\<^verbatim>\<open>fs.writeFileSync(path, text)\<close>\<close>
  | Disconnect browser        \<comment> \<open>\<^verbatim>\<open>browser.disconnect()\<close>\<close>
  | Close browser             \<comment> \<open>\<^verbatim>\<open>browser.close()\<close>\<close>
  | ConsoleError string       \<comment> \<open>\<^verbatim>\<open>console.error(msg, error)\<close>\<close>

datatype wait_outcome =
    WaitRejects    \<comment> \<open>the page or browser was closed: the pending wait rejects\<close>
  | WaitResolves   \<comment> \<open>the wait resolves (the predicate \<^verbatim>\<open>() => false\<close> never makes it so)\<close>
  | WaitNever      \<comment> \<open>nobody closes the browser: the wait stays pending\<close>

text \<open>
  The collaborators. \<open>responses\<close> lists, in the order in which they settle, the
  \<^verbatim>\<open>browser.cookies()\<close> reads of the listener's runs that settle before the wait
  does: \<open>Some s\<close> for a read that gives the snapshot \<open>s\<close>, \<open>None\<close> for a read
  that rejects. \<open>JSON_stringify cs\<close> stands for \<^verbatim>\<open>JSON.stringify(cs, null, 2)\<close>.
\<close>

record world =
  env_PUPPETEER_EXECUTABLE_PATH :: "string option"
  env_WEBHOOK_URL :: "string option"
  connect_ok :: "string \<Rightarrow> bool"
  launch_ok :: "string \<Rightarrow> bool"
  setCookie_ok :: "cookie list \<Rightarrow> bool"
  newPage_ok :: bool
  goto_ok :: "string \<Rightarrow> bool"
  responses :: "cookie list option list"
  wait_result :: wait_outcome
  JSON_stringify :: "cookie list \<Rightarrow> string"
  writeFile_ok :: "string \<Rightarrow> string \<Rightarrow> bool"
  release_ok :: bool

section \<open>getBrowser\<close>

definition acquire :: "world \<Rightarrow> connectionData \<Rightarrow> event list \<times> (error + browser)" where
  \<comment> \<open>Lines 39 to 78 of \<^verbatim>\<open>getBrowser\<close>: resolution and the
      \<^verbatim>\<open>if / else if / else\<close> chain.\<close>
  "acquire w connectionData =
    (let binaryPath = env_PUPPETEER_EXECUTABLE_PATH w;
         webhookUrl = env_WEBHOOK_URL w;
         executablePath' = js_or (executablePath connectionData) binaryPath;
         browserWSEndpoint' = js_or (browserWSEndpoint connectionData) webhookUrl
     in (case if_truthy browserWSEndpoint' of
          Some ep \<Rightarrow>
           (if connect_ok w ep then ([Connect ep], Inr (Connected ep))
            else ([Connect ep, ConsoleError ''Error connecting to webhook URL''],
                  Inl ConnectionError))
        | None \<Rightarrow>
           (case if_truthy executablePath' of
              Some p \<Rightarrow>
               (if launch_ok w p then ([Launch p False], Inr (Launched p))
                else ([Launch p False,
                       ConsoleError ''Error launching browser, check if the binary path is correct and is compatible with the package''],
                      Inl LaunchError))
            | None \<Rightarrow> ([], Inl ConfigurationError))))"

definition getBrowser ::
  "world \<Rightarrow> connectionData \<Rightarrow> cookie list \<Rightarrow> event list \<times> (error + browser)" where
  "getBrowser w connectionData cookies =
    (case acquire w connectionData of
       (tr, Inl e) \<Rightarrow> (tr, Inl e)
     | (tr, Inr browser) \<Rightarrow>
        (if length cookies > 0 then
           (if setCookie_ok w cookies then (tr @ [SetCookie cookies], Inr browser)
            else (tr @ [SetCookie cookies], Inl SeedingError))
         else (tr, Inr browser)))"

section \<open>getCookies\<close>

datatype result =
    Returned "cookie list"   \<comment> \<open>\<^verbatim>\<open>return cookies\<close>\<close>
  | ReturnedUndefined        \<comment> \<open>the function body ends without \<^verbatim>\<open>return\<close>\<close>
  | Threw error              \<comment> \<open>the promise rejects\<close>
  | Pending                  \<comment> \<open>the promise never settles\<close>

fun on_response :: "cookie list \<Rightarrow> cookie list option \<Rightarrow> cookie list" where
  \<comment> \<open>The listener \<^verbatim>\<open>cookies = await browser.cookies()\<close>: a read that rejects assigns nothing.\<close>
  "on_response cookies (Some snapshot) = snapshot"
| "on_response cookies None = cookies"

definition observe :: "cookie list option list \<Rightarrow> cookie list" where
  \<comment> \<open>The variable \<^verbatim>\<open>cookies\<close>, initially \<^verbatim>\<open>[]\<close>, after the listener's runs.\<close>
  "observe rs = foldl on_response [] rs"

definition cleanup :: "world \<Rightarrow> bool \<Rightarrow> browser \<Rightarrow> event list" where
  \<comment> \<open>The \<^verbatim>\<open>finally\<close> block; its own \<^verbatim>\<open>catch\<close> logs and swallows a failure.\<close>
  "cleanup w isConnectedBrowser browser =
    (if isConnectedBrowser then [Disconnect browser] else [Close browser]) @
    (if release_ok w then [] else [ConsoleError ''Error closing browser''])"

definition on_closure :: "world \<Rightarrow> string \<Rightarrow> cookie list \<Rightarrow> event list \<times> result" where
  \<comment> \<open>The \<^verbatim>\<open>catch\<close> block, lines 182 to 192. A throwing
      \<^verbatim>\<open>fs.writeFileSync\<close> leaves the block by that exception.\<close>
  "on_closure w cookieSavePath cookies =
    (if cookieSavePath \<noteq> [] then
       (let text = JSON_stringify w cookies
        in if writeFile_ok w cookieSavePath text
           then ([WriteFile cookieSavePath text], Returned cookies)
           else ([WriteFile cookieSavePath text], Threw PersistenceError))
     else ([], Returned cookies))"

definition try_catch_finally ::
  "world \<Rightarrow> bool \<Rightarrow> browser \<Rightarrow> string \<Rightarrow> event list \<times> result" where
  \<comment> \<open>Lines 174 to 209: the wait, during which the listener runs, then the
      \<^verbatim>\<open>catch\<close> block when the wait rejects, then the \<^verbatim>\<open>finally\<close> block.\<close>
  "try_catch_finally w isConnectedBrowser browser cookieSavePath =
    (let cookies = observe (responses w);
         t = WaitForFunction # map (\<lambda>r. ReadCookies) (responses w);
         fin = cleanup w isConnectedBrowser browser
     in (case wait_result w of
           WaitNever \<Rightarrow> (t, Pending)
         | WaitResolves \<Rightarrow> (t @ fin, ReturnedUndefined)
         | WaitRejects \<Rightarrow>
            (case on_closure w cookieSavePath cookies of
               (tc, r) \<Rightarrow> (t @ tc @ fin, r))))"

definition getCookies ::
  "world \<Rightarrow> string \<Rightarrow> connectionData \<Rightarrow> string \<Rightarrow> cookie list \<Rightarrow> event list \<times> result" where
  "getCookies w url connectionData cookieSavePath defaultCookies =
    (let browserWSEndpoint' = js_or (browserWSEndpoint connectionData) (env_WEBHOOK_URL w);
         isConnectedBrowser = truthy browserWSEndpoint'
     in (case getBrowser w connectionData defaultCookies of
          (t0, Inl e) \<Rightarrow> (t0, Threw e)
        | (t0, Inr browser) \<Rightarrow>
           (if \<not> newPage_ok w then (t0 @ [NewPage], Threw NewPageError)
            else if \<not> goto_ok w url then (t0 @ [NewPage, Goto url], Threw NavigationError)
            else
             (case try_catch_finally w isConnectedBrowser browser cookieSavePath of
                (t, r) \<Rightarrow> (t0 @ [NewPage, Goto url, OnResponse] @ t, r)))))"

section \<open>Reading a trace\<close>

fun is_attach :: "event \<Rightarrow> bool" where
  "is_attach (Connect ep) = True"
| "is_attach e = False"

fun is_launch :: "event \<Rightarrow> bool" where
  "is_launch (Launch p h) = True"
| "is_launch e = False"

fun is_seed :: "event \<Rightarrow> bool" where
  "is_seed (SetCookie cs) = True"
| "is_seed e = False"

fun is_release :: "event \<Rightarrow> bool" where
  "is_release (Disconnect b) = True"
| "is_release (Close b) = True"
| "is_release e = False"

fun is_write :: "event \<Rightarrow> bool" where
  "is_write (WriteFile p t) = True"
| "is_write e = False"

definition attaches :: "event list \<Rightarrow> event list" where
  "attaches tr = filter is_attach tr"

definition launches :: "event list \<Rightarrow> event list" where
  "launches tr = filter is_launch tr"

definition seedings :: "event list \<Rightarrow> event list" where
  "seedings tr = filter is_seed tr"

definition releases :: "event list \<Rightarrow> event list" where
  "releases tr = filter is_release tr"

definition writes :: "event list \<Rightarrow> event list" where
  "writes tr = filter is_write tr"

text \<open>The writes of a trace that succeeded: the files that exist afterwards.\<close>

fun write_succeeds :: "world \<Rightarrow> event \<Rightarrow> bool" where
  "write_succeeds w (WriteFile p t) = writeFile_ok w p t"
| "write_succeeds w e = False"

definition files_written :: "world \<Rightarrow> event list \<Rightarrow> event list" where
  "files_written w tr = filter (write_succeeds w) tr"

section \<open>Example inputs\<close>

text \<open>
  A world in which every collaborator succeeds, a local executable is configured by the
  environment, two responses are observed and the browser is then closed; and variants of
  it. \<open>example_stringify\<close> stands in for \<^verbatim>\<open>JSON.stringify\<close> in the examples
  only.
\<close>

definition c_session :: cookie where
  "c_session = \<lparr>cookie_name = ''session'', cookie_value = ''abc123'', cookie_domain = ''.example.com'',
     cookie_path = ''/'', cookie_expires = None, cookie_httpOnly = False, cookie_secure = False,
     cookie_sameSite = None\<rparr>"

definition c_token :: cookie where
  "c_token = \<lparr>cookie_name = ''token'', cookie_value = ''xyz'', cookie_domain = ''.example.com'',
     cookie_path = ''/'', cookie_expires = Some 1234567890, cookie_httpOnly = False, cookie_secure = True,
     cookie_sameSite = Some ''Lax''\<rparr>"

definition example_stringify :: "cookie list \<Rightarrow> string" where
  "example_stringify cs = concat (map (\<lambda>c. cookie_name c @ ''='' @ cookie_value c @ '';'') cs)"

definition w_example :: world where
  "w_example = \<lparr>env_PUPPETEER_EXECUTABLE_PATH = Some ''/usr/bin/google-chrome'',
      env_WEBHOOK_URL = None,
      connect_ok = (\<lambda>ep. True), launch_ok = (\<lambda>p. True), setCookie_ok = (\<lambda>cs. True),
      newPage_ok = True, goto_ok = (\<lambda>u. True),
      responses = [Some [c_session], Some [c_session, c_token]],
      wait_result = WaitRejects,
      JSON_stringify = example_stringify,
      writeFile_ok = (\<lambda>p t. True), release_ok = True\<rparr>"

definition no_config :: connectionData where
  "no_config = \<lparr>executablePath = None, browserWSEndpoint = None\<rparr>"

definition conn_both :: connectionData where
  "conn_both = \<lparr>executablePath = Some ''/usr/bin/google-chrome'',
      browserWSEndpoint = Some ''ws://127.0.0.1:9222/devtools/browser/1''\<rparr>"

definition conn_empty_strings :: connectionData where
  "conn_empty_strings = \<lparr>executablePath = Some [], browserWSEndpoint = Some []\<rparr>"

definition w_unset :: world where
  "w_unset = w_example\<lparr>env_PUPPETEER_EXECUTABLE_PATH := None\<rparr>"

definition w_navigation_fails :: world where
  "w_navigation_fails = w_example\<lparr>goto_ok := (\<lambda>u. False)\<rparr>"

definition w_write_fails :: world where
  "w_write_fails = w_example\<lparr>writeFile_ok := (\<lambda>p t. False)\<rparr>"

definition w_seeding_fails :: world where
  "w_seeding_fails = w_example\<lparr>setCookie_ok := (\<lambda>cs. False)\<rparr>"

definition w_remote_env :: world where
  "w_remote_env = w_example\<lparr>env_WEBHOOK_URL := Some ''ws://127.0.0.1:9222/devtools/browser/1''\<rparr>"

definition conn_local :: connectionData where
  "conn_local = \<lparr>executablePath = Some ''/opt/chromium/chrome'', browserWSEndpoint = None\<rparr>"

definition example_parse :: "string \<Rightarrow> cookie list option" where
  "example_parse t =
    (if t = example_stringify [c_session, c_token] then Some [c_session, c_token] else None)"

section \<open>Lemmas\<close>

lemmas model_defs =
  getCookies_def getBrowser_def acquire_def try_catch_finally_def on_closure_def cleanup_def
  observe_def js_or_def if_truthy_def truthy_def Let_def

lemma truthy_simps [simp]: "truthy None = False" "truthy (Some s) = (s \<noteq> [])"
  by (simp_all add: truthy_def)

lemma if_truthy_eq: "if_truthy v = (if truthy v then v else None)"
  by (simp add: if_truthy_def truthy_def split: option.splits)

lemma truthy_Some: "truthy v \<longleftrightarrow> (\<exists>s. v = Some s \<and> s \<noteq> [])"
  by (cases v) simp_all

lemma acquire_remote:
  assumes "js_or (browserWSEndpoint conn) (env_WEBHOOK_URL w) = Some ep" "ep \<noteq> []"
  shows "acquire w conn =
    (if connect_ok w ep then ([Connect ep], Inr (Connected ep))
     else ([Connect ep, ConsoleError ''Error connecting to webhook URL''], Inl ConnectionError))"
  using assms by (simp add: acquire_def if_truthy_def)

lemma acquire_local:
  assumes "\<not> truthy (js_or (browserWSEndpoint conn) (env_WEBHOOK_URL w))"
    and "js_or (executablePath conn) (env_PUPPETEER_EXECUTABLE_PATH w) = Some p" "p \<noteq> []"
  shows "acquire w conn =
    (if launch_ok w p then ([Launch p False], Inr (Launched p))
     else ([Launch p False,
            ConsoleError ''Error launching browser, check if the binary path is correct and is compatible with the package''],
           Inl LaunchError))"
  using assms by (simp add: acquire_def if_truthy_eq)

lemma acquire_none:
  assumes "\<not> truthy (js_or (browserWSEndpoint conn) (env_WEBHOOK_URL w))"
    and "\<not> truthy (js_or (executablePath conn) (env_PUPPETEER_EXECUTABLE_PATH w))"
  shows "acquire w conn = ([], Inl ConfigurationError)"
  using assms by (simp add: acquire_def if_truthy_eq)

text \<open>The three ways \<open>acquire\<close> can go, as one case rule.\<close>

lemma acquire_cases [case_names remote local none]:
  assumes "\<And>ep. js_or (browserWSEndpoint conn) (env_WEBHOOK_URL w) = Some ep \<Longrightarrow> ep \<noteq> [] \<Longrightarrow> P"
    and "\<And>p. \<not> truthy (js_or (browserWSEndpoint conn) (env_WEBHOOK_URL w)) \<Longrightarrow>
           js_or (executablePath conn) (env_PUPPETEER_EXECUTABLE_PATH w) = Some p \<Longrightarrow> p \<noteq> [] \<Longrightarrow> P"
    and "\<not> truthy (js_or (browserWSEndpoint conn) (env_WEBHOOK_URL w)) \<Longrightarrow>
         \<not> truthy (js_or (executablePath conn) (env_PUPPETEER_EXECUTABLE_PATH w)) \<Longrightarrow> P"
  shows P
  using assms by (meson truthy_Some)

lemma mode_consistent:
  assumes "acquire w conn = (tr, Inr b)"
  shows "(if truthy (js_or (browserWSEndpoint conn) (env_WEBHOOK_URL w))
          then [Disconnect b] else [Close b]) =
         [case b of Connected ep \<Rightarrow> Disconnect b | Launched p \<Rightarrow> Close b]"
proof (cases rule: acquire_cases [where w = w and conn = conn])
  case (remote ep)
  with assms show ?thesis by (auto simp: acquire_remote split: if_splits)
next
  case (local p)
  with assms show ?thesis by (auto simp: acquire_local split: if_splits)
next
  case none
  with assms show ?thesis by (simp add: acquire_none)
qed

lemma acquire_quiet:
  "filter is_seed (fst (acquire w conn)) = [] \<and> filter is_release (fst (acquire w conn)) = [] \<and>
   filter is_write (fst (acquire w conn)) = [] \<and>
   WaitForFunction \<notin> set (fst (acquire w conn)) \<and> OnResponse \<notin> set (fst (acquire w conn))"
  by (cases rule: acquire_cases [where w = w and conn = conn]) (simp_all add: acquire_remote acquire_local acquire_none)

lemma getBrowser_Inr:
  "getBrowser w conn cs = (tr, Inr b) \<longleftrightarrow>
    (\<exists>t. acquire w conn = (t, Inr b) \<and>
         (if cs = [] then tr = t else setCookie_ok w cs \<and> tr = t @ [SetCookie cs]))"
  by (cases "acquire w conn") (auto simp: getBrowser_def split: sum.splits)

lemma getBrowser_trace_eq:
  "fst (getBrowser w conn cs) =
     fst (acquire w conn) @
     (case snd (acquire w conn) of Inl e \<Rightarrow> [] | Inr b \<Rightarrow> if cs = [] then [] else [SetCookie cs])"
  by (cases "acquire w conn") (simp add: getBrowser_def split: sum.splits)

lemma getBrowser_quiet:
  "filter is_release (fst (getBrowser w conn cs)) = [] \<and>
   filter is_write (fst (getBrowser w conn cs)) = [] \<and>
   WaitForFunction \<notin> set (fst (getBrowser w conn cs)) \<and>
   OnResponse \<notin> set (fst (getBrowser w conn cs))"
  using acquire_quiet [of w conn]
  by (simp add: getBrowser_trace_eq split: sum.splits)

lemma getBrowser_attaches:
  "attaches (fst (getBrowser w conn cs)) = attaches (fst (acquire w conn))"
  by (simp add: getBrowser_trace_eq attaches_def split: sum.splits)

lemma getBrowser_launches:
  "launches (fst (getBrowser w conn cs)) = launches (fst (acquire w conn))"
  by (simp add: getBrowser_trace_eq launches_def split: sum.splits)

lemma filter_ReadCookies [simp]:
  "filter is_attach (map (\<lambda>r. ReadCookies) rs) = []"
  "filter is_launch (map (\<lambda>r. ReadCookies) rs) = []"
  "filter is_release (map (\<lambda>r. ReadCookies) rs) = []"
  "filter is_write (map (\<lambda>r. ReadCookies) rs) = []"
  by (induction rs) simp_all

lemma on_closure_quiet:
  "filter is_attach (fst (on_closure w path cs)) = [] \<and>
   filter is_launch (fst (on_closure w path cs)) = [] \<and>
   filter is_release (fst (on_closure w path cs)) = []"
  by (simp add: on_closure_def Let_def)

lemma cleanup_quiet:
  "filter is_attach (cleanup w c b) = [] \<and> filter is_launch (cleanup w c b) = [] \<and>
   filter is_write (cleanup w c b) = []"
  by (simp add: cleanup_def)

lemma cleanup_releases:
  "filter is_release (cleanup w c b) = (if c then [Disconnect b] else [Close b])"
  by (simp add: cleanup_def)

lemma try_catch_finally_quiet:
  "filter is_attach (fst (try_catch_finally w c b path)) = [] \<and>
   filter is_launch (fst (try_catch_finally w c b path)) = []"
  using on_closure_quiet [of w path "observe (responses w)"] cleanup_quiet [of w c b]
  by (cases "wait_result w"; cases "on_closure w path (observe (responses w))")
     (simp_all add: try_catch_finally_def Let_def)

text \<open>The paths through \<open>getCookies\<close>, one equation each.\<close>

lemma getCookies_acquisition_fails:
  "getBrowser w conn dc = (t0, Inl e) \<Longrightarrow> getCookies w url conn path dc = (t0, Threw e)"
  by (simp add: getCookies_def)

lemma getCookies_newPage_fails:
  "getBrowser w conn dc = (t0, Inr b) \<Longrightarrow> \<not> newPage_ok w \<Longrightarrow>
   getCookies w url conn path dc = (t0 @ [NewPage], Threw NewPageError)"
  by (simp add: getCookies_def)

lemma getCookies_goto_fails:
  "getBrowser w conn dc = (t0, Inr b) \<Longrightarrow> newPage_ok w \<Longrightarrow> \<not> goto_ok w url \<Longrightarrow>
   getCookies w url conn path dc = (t0 @ [NewPage, Goto url], Threw NavigationError)"
  by (simp add: getCookies_def)

lemma getCookies_session:
  "getBrowser w conn dc = (t0, Inr b) \<Longrightarrow> newPage_ok w \<Longrightarrow> goto_ok w url \<Longrightarrow>
   getCookies w url conn path dc =
     (t0 @ [NewPage, Goto url, OnResponse] @
        fst (try_catch_finally w (truthy (js_or (browserWSEndpoint conn) (env_WEBHOOK_URL w))) b path),
      snd (try_catch_finally w (truthy (js_or (browserWSEndpoint conn) (env_WEBHOOK_URL w))) b path))"
  by (simp add: getCookies_def Let_def split: prod.splits)

lemma getCookies_cases [case_names acquisition newPage goto session]:
  assumes "\<And>t0 e. getBrowser w conn dc = (t0, Inl e) \<Longrightarrow> P"
    and "\<And>t0 b. getBrowser w conn dc = (t0, Inr b) \<Longrightarrow> \<not> newPage_ok w \<Longrightarrow> P"
    and "\<And>t0 b. getBrowser w conn dc = (t0, Inr b) \<Longrightarrow> newPage_ok w \<Longrightarrow> \<not> goto_ok w url \<Longrightarrow> P"
    and "\<And>t0 b. getBrowser w conn dc = (t0, Inr b) \<Longrightarrow> newPage_ok w \<Longrightarrow> goto_ok w url \<Longrightarrow> P"
  shows P
proof (cases "getBrowser w conn dc")
  case (Pair t0 r)
  then show ?thesis using assms by (cases r) blast+
qed

lemma getCookies_attaches:
  "attaches (fst (getCookies w url conn path dc)) = attaches (fst (getBrowser w conn dc))"
proof (cases rule: getCookies_cases [where w = w and conn = conn and dc = dc and url = url])
  case (acquisition t0 e)
  then show ?thesis by (simp add: getCookies_acquisition_fails)
next
  case (newPage t0 b)
  then show ?thesis by (simp add: getCookies_newPage_fails attaches_def)
next
  case (goto t0 b)
  then show ?thesis by (simp add: getCookies_goto_fails attaches_def)
next
  case (session t0 b)
  then show ?thesis by (simp add: getCookies_session attaches_def try_catch_finally_quiet)
qed

lemma getCookies_launches:
  "launches (fst (getCookies w url conn path dc)) = launches (fst (getBrowser w conn dc))"
proof (cases rule: getCookies_cases [where w = w and conn = conn and dc = dc and url = url])
  case (acquisition t0 e)
  then show ?thesis by (simp add: getCookies_acquisition_fails)
next
  case (newPage t0 b)
  then show ?thesis by (simp add: getCookies_newPage_fails launches_def)
next
  case (goto t0 b)
  then show ?thesis by (simp add: getCookies_goto_fails launches_def)
next
  case (session t0 b)
  then show ?thesis by (simp add: getCookies_session launches_def try_catch_finally_quiet)
qed



subsection \<open>The listener\<close>



lemma observe_snoc_None: "observe (rs @ [None]) = observe rs"
  by (simp add: observe_def)


subsection \<open>Release\<close>

lemma released_once_after_settled_wait:
  assumes "getBrowser w conn dc = (t0, Inr b)" "newPage_ok w" "goto_ok w url"
    and "wait_result w \<noteq> WaitNever"
  shows "releases (fst (getCookies w url conn path dc)) =
         [case b of Connected ep \<Rightarrow> Disconnect b | Launched p \<Rightarrow> Close b]"
proof -
  from assms(1) obtain t where t: "acquire w conn = (t, Inr b)"
    by (auto simp: getBrowser_Inr)
  let ?c = "truthy (js_or (browserWSEndpoint conn) (env_WEBHOOK_URL w))"
  have q: "filter is_release t0 = []"
    using getBrowser_quiet [of w conn dc] assms(1) by simp
  have r: "filter is_release (fst (try_catch_finally w ?c b path)) =
           (if ?c then [Disconnect b] else [Close b])"
    using assms(4) on_closure_quiet [of w path "observe (responses w)"]
    by (cases "wait_result w"; cases "on_closure w path (observe (responses w))")
       (simp_all add: try_catch_finally_def Let_def cleanup_releases)
  show ?thesis
    using q r mode_consistent [OF t]
    by (simp add: getCookies_session [OF assms(1-3)] releases_def)
qed

lemma not_released_before_wait:
  assumes "snd (getCookies w url conn path dc) = Threw e" "e \<noteq> PersistenceError"
  shows "releases (fst (getCookies w url conn path dc)) = []"
proof (cases rule: getCookies_cases [where w = w and conn = conn and dc = dc and url = url])
  case (acquisition t0 e)
  then show ?thesis
    using getBrowser_quiet [of w conn dc] by (simp add: getCookies_acquisition_fails releases_def)
next
  case (newPage t0 b)
  then show ?thesis
    using getBrowser_quiet [of w conn dc] by (simp add: getCookies_newPage_fails releases_def)
next
  case (goto t0 b)
  then show ?thesis
    using getBrowser_quiet [of w conn dc] by (simp add: getCookies_goto_fails releases_def)
next
  case (session t0 b)
  then show ?thesis
    using assms
    by (cases "wait_result w")
       (auto simp: getCookies_session try_catch_finally_def on_closure_def Let_def
             split: if_splits)
qed

subsection \<open>Seeding\<close>

lemma getBrowser_seeds_once:
  "seedings (fst (getBrowser w conn cs)) =
     (case snd (acquire w conn) of Inl e \<Rightarrow> [] | Inr b \<Rightarrow> if cs = [] then [] else [SetCookie cs])"
  using acquire_quiet [of w conn]
  by (simp add: getBrowser_trace_eq seedings_def split: sum.splits)

lemma seeding_failure_propagates:
  assumes "acquire w conn = (t, Inr b)" "cs \<noteq> []" "\<not> setCookie_ok w cs"
  shows "getBrowser w conn cs = (t @ [SetCookie cs], Inl SeedingError) \<and>
         getCookies w url conn path cs = (t @ [SetCookie cs], Threw SeedingError)"
  using assms by (simp add: getBrowser_def getCookies_def)


subsection \<open>Resolution and successful writes\<close>

lemma js_or_param: "a = Some s \<Longrightarrow> s \<noteq> [] \<Longrightarrow> js_or a b = Some s"
  by (simp add: js_or_def)

lemma js_or_fallback: "a = None \<or> a = Some [] \<Longrightarrow> js_or a b = b"
  by (auto simp: js_or_def)

lemma files_written_ReadCookies [simp]:
  "filter (write_succeeds w) (map (\<lambda>r. ReadCookies) rs) = []"
  by (induction rs) simp_all

lemma acquire_writes_nothing: "filter (write_succeeds w) (fst (acquire w' conn)) = []"
  by (cases rule: acquire_cases [where w = w' and conn = conn])
     (simp_all add: acquire_remote acquire_local acquire_none)

lemma getBrowser_writes_nothing: "filter (write_succeeds w) (fst (getBrowser w' conn cs)) = []"
  using acquire_writes_nothing [of w w' conn]
  by (simp add: getBrowser_trace_eq split: sum.splits)

lemma cleanup_writes_nothing: "filter (write_succeeds w) (cleanup w' c b) = []"
  by (simp add: cleanup_def)

section \<open>The claims\<close>

text \<open>
  C1 says that a failing navigation is not propagated at once: the session goes on to the
  wait and in the end returns the captured cookies. The \<^verbatim>\<open>await page.goto(url)\<close>
  of line 163 stands before the \<^verbatim>\<open>try\<close>, so its rejection leaves
  \<^verbatim>\<open>getCookies\<close> at once, as the function's documentation announces
  (\<^verbatim>\<open>@throws {Error} If navigation to URL fails\<close>). With a local browser and a
  navigation that fails, the call rejects with the navigation error and never waits.
\<close>

theorem C1_navigation_failure_counterexample:
  "snd (getCookies w_navigation_fails ''https://example.com'' no_config ''out.json'' []) =
     Threw NavigationError \<and>
   WaitForFunction \<notin>
     set (fst (getCookies w_navigation_fails ''https://example.com'' no_config ''out.json'' []))"
  by (simp add: model_defs w_navigation_fails_def w_example_def no_config_def)

text \<open>
  C1, as the code has it: whenever the browser was acquired, the page opened and the
  navigation to \<open>url\<close> fails, \<^verbatim>\<open>getCookies\<close> rejects with the navigation error at
  once: no listener is registered, the wait is never entered, no file is written and no
  cookie set is returned.
\<close>

theorem C1_navigation_error_propagates:
  assumes "getBrowser w conn dc = (t0, Inr b)" and "newPage_ok w" and "\<not> goto_ok w url"
  shows "snd (getCookies w url conn path dc) = Threw NavigationError \<and>
         OnResponse \<notin> set (fst (getCookies w url conn path dc)) \<and>
         WaitForFunction \<notin> set (fst (getCookies w url conn path dc)) \<and>
         writes (fst (getCookies w url conn path dc)) = []"
  using getBrowser_quiet [of w conn dc] assms
  by (simp add: getCookies_goto_fails [OF assms] writes_def)

theorem C1_navigation_error_propagates_witness:
  "getBrowser w_navigation_fails no_config [] = ([Launch ''/usr/bin/google-chrome'' False],
      Inr (Launched ''/usr/bin/google-chrome'')) \<and>
   newPage_ok w_navigation_fails \<and> \<not> goto_ok w_navigation_fails ''https://example.com'' \<and>
   snd (getCookies w_navigation_fails ''https://example.com'' no_config ''out.json'' []) =
     Threw NavigationError \<and>
   writes (fst (getCookies w_navigation_fails ''https://example.com'' no_config ''out.json'' [])) = []"
proof -
  have g: "getBrowser w_navigation_fails no_config [] = ([Launch ''/usr/bin/google-chrome'' False],
      Inr (Launched ''/usr/bin/google-chrome''))"
    by (simp add: model_defs w_navigation_fails_def w_example_def no_config_def)
  have n: "newPage_ok w_navigation_fails" by (simp add: w_navigation_fails_def w_example_def no_config_def)
  have f: "\<not> goto_ok w_navigation_fails ''https://example.com''" by (simp add: w_navigation_fails_def w_example_def no_config_def)
  show ?thesis
    using g n f C1_navigation_error_propagates [OF g n f, of "''out.json''"] by simp
qed

text \<open>
  C2 says that an acquired browser handle is released exactly once on every exit path,
  navigation failure included. Only the wait is inside the \<^verbatim>\<open>try\<close> whose
  \<^verbatim>\<open>finally\<close> releases the handle (\<open>released_once_after_settled_wait\<close>); a
  rejection of \<^verbatim>\<open>getBrowser\<close>'s seeding, of \<^verbatim>\<open>newPage\<close> or of \<^verbatim>\<open>goto\<close>
  leaves the function before it (\<open>not_released_before_wait\<close>). Here a browser is
  launched, the navigation fails, and the trace ends without \<^verbatim>\<open>browser.close()\<close>.
\<close>

theorem C2_navigation_failure_leaves_browser_open:
  "getCookies w_navigation_fails ''https://example.com'' no_config [] [] =
     ([Launch ''/usr/bin/google-chrome'' False, NewPage, Goto ''https://example.com''],
      Threw NavigationError) \<and>
   releases (fst (getCookies w_navigation_fails ''https://example.com'' no_config [] [])) = []"
  by (simp add: model_defs releases_def w_navigation_fails_def w_example_def no_config_def)



text \<open>
  C4 says that a failing file write does not change what the caller receives. The
  \<^verbatim>\<open>fs.writeFileSync\<close> of line 189 is inside the \<^verbatim>\<open>catch\<close> block with no handler
  of its own, so its exception replaces the \<^verbatim>\<open>return cookies\<close> of line 191: the
  \<^verbatim>\<open>finally\<close> block runs and the exception reaches the caller.
\<close>

theorem C4_write_failure_counterexample:
  "snd (getCookies w_write_fails ''https://example.com'' no_config ''out.json'' []) =
     Threw PersistenceError"
  by (simp add: model_defs w_write_fails_def w_example_def no_config_def)

text \<open>
  C4, as the code has it: when the closure step is reached with a non-empty
  \<^verbatim>\<open>cookieSavePath\<close> and the file write fails, the handle is still released, exactly
  once and by the operation that matches how it was obtained, and then
  \<^verbatim>\<open>getCookies\<close> rejects with the write error instead of returning the captured
  cookies.
\<close>

theorem C4_write_failure_propagates_after_release:
  assumes "getBrowser w conn dc = (t0, Inr b)" and "newPage_ok w" and "goto_ok w url"
    and "wait_result w = WaitRejects" and "path \<noteq> []"
    and "\<not> writeFile_ok w path (JSON_stringify w (observe (responses w)))"
  shows "snd (getCookies w url conn path dc) = Threw PersistenceError \<and>
         releases (fst (getCookies w url conn path dc)) =
           [case b of Connected ep \<Rightarrow> Disconnect b | Launched p \<Rightarrow> Close b]"
proof -
  have "wait_result w \<noteq> WaitNever" using assms(4) by simp
  from released_once_after_settled_wait [OF assms(1-3) this]
  have "releases (fst (getCookies w url conn path dc)) =
           [case b of Connected ep \<Rightarrow> Disconnect b | Launched p \<Rightarrow> Close b]" .
  moreover have "snd (getCookies w url conn path dc) = Threw PersistenceError"
    using assms(4-6)
    by (simp add: getCookies_session [OF assms(1-3)] try_catch_finally_def on_closure_def Let_def)
  ultimately show ?thesis by simp
qed

theorem C4_write_failure_propagates_after_release_witness:
  "getBrowser w_write_fails no_config [] = ([Launch ''/usr/bin/google-chrome'' False],
      Inr (Launched ''/usr/bin/google-chrome'')) \<and>
   newPage_ok w_write_fails \<and> goto_ok w_write_fails ''https://example.com'' \<and>
   wait_result w_write_fails = WaitRejects \<and> ''out.json'' \<noteq> [] \<and>
   \<not> writeFile_ok w_write_fails ''out.json''
       (JSON_stringify w_write_fails (observe (responses w_write_fails))) \<and>
   snd (getCookies w_write_fails ''https://example.com'' no_config ''out.json'' []) =
     Threw PersistenceError \<and>
   releases (fst (getCookies w_write_fails ''https://example.com'' no_config ''out.json'' [])) =
     [Close (Launched ''/usr/bin/google-chrome'')]"
proof -
  have g: "getBrowser w_write_fails no_config [] = ([Launch ''/usr/bin/google-chrome'' False],
      Inr (Launched ''/usr/bin/google-chrome''))"
    by (simp add: model_defs w_write_fails_def w_example_def no_config_def)
  have n: "newPage_ok w_write_fails" by (simp add: w_write_fails_def w_example_def no_config_def)
  have v: "goto_ok w_write_fails ''https://example.com''" by (simp add: w_write_fails_def w_example_def no_config_def)
  have c: "wait_result w_write_fails = WaitRejects" by (simp add: w_write_fails_def w_example_def no_config_def)
  have p: "''out.json'' \<noteq> []" by simp
  have f: "\<not> writeFile_ok w_write_fails ''out.json''
       (JSON_stringify w_write_fails (observe (responses w_write_fails)))"
    by (simp add: w_write_fails_def w_example_def no_config_def)
  show ?thesis
    using g n v c f C4_write_failure_propagates_after_release [OF g n v c p f] by simp
qed

text \<open>
  C5: when the remote endpoint resolves to a non-empty string \<open>ep\<close>, either as the
  parameter \<^verbatim>\<open>connectionData.browserWSEndpoint\<close> or, with that parameter absent or
  empty, as the environment variable \<^verbatim>\<open>WEBHOOK_URL\<close>, the only acquisition call is
  \<^verbatim>\<open>puppeteer.connect\<close> to \<open>ep\<close>; \<^verbatim>\<open>puppeteer.launch\<close> is never called,
  whatever the executable path is. This holds for \<^verbatim>\<open>getBrowser\<close> and for the whole
  of \<^verbatim>\<open>getCookies\<close>.
\<close>

theorem C5_remote_takes_priority:
  assumes "(browserWSEndpoint conn = Some ep \<and> ep \<noteq> []) \<or>
           ((browserWSEndpoint conn = None \<or> browserWSEndpoint conn = Some []) \<and>
            env_WEBHOOK_URL w = Some ep \<and> ep \<noteq> [])"
  shows "attaches (fst (getBrowser w conn cs)) = [Connect ep] \<and>
         launches (fst (getBrowser w conn cs)) = [] \<and>
         attaches (fst (getCookies w url conn path cs)) = [Connect ep] \<and>
         launches (fst (getCookies w url conn path cs)) = []"
proof -
  from assms have ep: "js_or (browserWSEndpoint conn) (env_WEBHOOK_URL w) = Some ep" "ep \<noteq> []"
    by (auto simp: js_or_param js_or_fallback)
  have a: "attaches (fst (acquire w conn)) = [Connect ep]"
    by (simp add: acquire_remote [OF ep] attaches_def)
  have l: "launches (fst (acquire w conn)) = []"
    by (simp add: acquire_remote [OF ep] launches_def)
  show ?thesis
    using a l
    by (simp add: getCookies_attaches getCookies_launches getBrowser_attaches getBrowser_launches)
qed

theorem C5_remote_takes_priority_witness:
  "browserWSEndpoint conn_both = Some ''ws://127.0.0.1:9222/devtools/browser/1'' \<and>
   executablePath conn_both = Some ''/usr/bin/google-chrome'' \<and>
   attaches (fst (getBrowser w_example conn_both [])) =
     [Connect ''ws://127.0.0.1:9222/devtools/browser/1''] \<and>
   launches (fst (getBrowser w_example conn_both [])) = [] \<and>
   browserWSEndpoint no_config = None \<and>
   env_WEBHOOK_URL w_remote_env = Some ''ws://127.0.0.1:9222/devtools/browser/1'' \<and>
   env_PUPPETEER_EXECUTABLE_PATH w_remote_env = Some ''/usr/bin/google-chrome'' \<and>
   attaches (fst (getBrowser w_remote_env no_config [])) =
     [Connect ''ws://127.0.0.1:9222/devtools/browser/1''] \<and>
   launches (fst (getBrowser w_remote_env no_config [])) = [] \<and>
   attaches (fst (getCookies w_remote_env ''https://example.com'' no_config [] [])) =
     [Connect ''ws://127.0.0.1:9222/devtools/browser/1''] \<and>
   launches (fst (getCookies w_remote_env ''https://example.com'' no_config [] [])) = []"
proof -
  have p: "browserWSEndpoint conn_both = Some ''ws://127.0.0.1:9222/devtools/browser/1''"
    "executablePath conn_both = Some ''/usr/bin/google-chrome''"
    by (simp_all add: conn_both_def)
  have e: "browserWSEndpoint no_config = None"
    "env_WEBHOOK_URL w_remote_env = Some ''ws://127.0.0.1:9222/devtools/browser/1''"
    "env_PUPPETEER_EXECUTABLE_PATH w_remote_env = Some ''/usr/bin/google-chrome''"
    by (simp_all add: no_config_def w_remote_env_def w_example_def)
  have hp: "(browserWSEndpoint conn_both = Some ''ws://127.0.0.1:9222/devtools/browser/1'' \<and>
             ''ws://127.0.0.1:9222/devtools/browser/1'' \<noteq> []) \<or>
           ((browserWSEndpoint conn_both = None \<or> browserWSEndpoint conn_both = Some []) \<and>
            env_WEBHOOK_URL w_example = Some ''ws://127.0.0.1:9222/devtools/browser/1'' \<and>
            ''ws://127.0.0.1:9222/devtools/browser/1'' \<noteq> [])"
    using p by simp
  have he: "(browserWSEndpoint no_config = Some ''ws://127.0.0.1:9222/devtools/browser/1'' \<and>
             ''ws://127.0.0.1:9222/devtools/browser/1'' \<noteq> []) \<or>
           ((browserWSEndpoint no_config = None \<or> browserWSEndpoint no_config = Some []) \<and>
            env_WEBHOOK_URL w_remote_env = Some ''ws://127.0.0.1:9222/devtools/browser/1'' \<and>
            ''ws://127.0.0.1:9222/devtools/browser/1'' \<noteq> [])"
    using e by simp
  show ?thesis
    using p e C5_remote_takes_priority [OF hp, of "[]" "''https://example.com''" "[]"]
      C5_remote_takes_priority [OF he, of "[]" "''https://example.com''" "[]"]
    by simp
qed

text \<open>
  C6: when neither parameter is a non-empty string and neither environment variable is
  set, \<^verbatim>\<open>getBrowser\<close> throws the configuration error with an empty trace: nothing was
  connected or launched. \<^verbatim>\<open>getCookies\<close> passes the error on, also with an empty
  trace.
\<close>

theorem C6_configuration_error_first:
  assumes "\<not> truthy (browserWSEndpoint conn)" and "\<not> truthy (executablePath conn)"
    and "env_WEBHOOK_URL w = None" and "env_PUPPETEER_EXECUTABLE_PATH w = None"
  shows "getBrowser w conn cs = ([], Inl ConfigurationError) \<and>
         getCookies w url conn path cs = ([], Threw ConfigurationError)"
proof -
  have r: "\<not> truthy (js_or (browserWSEndpoint conn) (env_WEBHOOK_URL w))"
    using assms(1,3) by (simp add: js_or_def)
  have l: "\<not> truthy (js_or (executablePath conn) (env_PUPPETEER_EXECUTABLE_PATH w))"
    using assms(2,4) by (simp add: js_or_def)
  have g: "getBrowser w conn cs = ([], Inl ConfigurationError)"
    by (simp add: getBrowser_def acquire_none [OF r l])
  show ?thesis by (simp add: g getCookies_def)
qed

theorem C6_configuration_error_first_witness:
  "\<not> truthy (browserWSEndpoint conn_empty_strings) \<and>
   \<not> truthy (executablePath conn_empty_strings) \<and>
   env_WEBHOOK_URL w_unset = None \<and> env_PUPPETEER_EXECUTABLE_PATH w_unset = None \<and>
   getBrowser w_unset conn_empty_strings [c_session] = ([], Inl ConfigurationError) \<and>
   getCookies w_unset ''https://example.com'' conn_empty_strings ''out.json'' [c_session] =
     ([], Threw ConfigurationError)"
proof -
  have a: "\<not> truthy (browserWSEndpoint conn_empty_strings)"
    by (simp add: conn_empty_strings_def)
  have b: "\<not> truthy (executablePath conn_empty_strings)"
    by (simp add: conn_empty_strings_def)
  have c: "env_WEBHOOK_URL w_unset = None" by (simp add: w_unset_def w_example_def)
  have d: "env_PUPPETEER_EXECUTABLE_PATH w_unset = None" by (simp add: w_unset_def)
  show ?thesis
    using a b c d C6_configuration_error_first [OF a b c d] by simp
qed


lemma no_path_no_write: "writes (fst (getCookies w url conn [] dc)) = []"
proof (cases rule: getCookies_cases [where w = w and conn = conn and dc = dc and url = url])
  case (acquisition t0 e)
  then show ?thesis
    using getBrowser_quiet [of w conn dc] by (simp add: getCookies_acquisition_fails writes_def)
next
  case (newPage t0 b)
  then show ?thesis
    using getBrowser_quiet [of w conn dc] by (simp add: getCookies_newPage_fails writes_def)
next
  case (goto t0 b)
  then show ?thesis
    using getBrowser_quiet [of w conn dc] by (simp add: getCookies_goto_fails writes_def)
next
  case (session t0 b)
  then show ?thesis
    using getBrowser_quiet [of w conn dc]
    by (cases "wait_result w")
       (simp_all add: getCookies_session try_catch_finally_def on_closure_def Let_def writes_def
          cleanup_quiet)
qed

text \<open>
  C7 says that every invocation reaching the closure step with a non-empty
  \<^verbatim>\<open>cookieSavePath\<close> leaves a file there that reads back as the returned cookie
  set. The write can fail: here the wait rejects, the one
  \<^verbatim>\<open>fs.writeFileSync\<close> call throws, no file is written and the call rejects
  instead of returning.
\<close>

theorem C7_failed_write_counterexample:
  "wait_result w_write_fails = WaitRejects \<and>
   WaitForFunction \<in>
     set (fst (getCookies w_write_fails ''https://example.com'' no_config ''./out.json'' [])) \<and>
   files_written w_write_fails
     (fst (getCookies w_write_fails ''https://example.com'' no_config ''./out.json'' [])) = [] \<and>
   snd (getCookies w_write_fails ''https://example.com'' no_config ''./out.json'' []) =
     Threw PersistenceError"
  by (simp add: model_defs files_written_def w_write_fails_def w_example_def no_config_def)

text \<open>
  C7, as the code has it: for every invocation that reaches the closure step and whose
  file write, if there is one, succeeds, the captured cookie set is returned; with a
  non-empty \<^verbatim>\<open>cookieSavePath\<close> exactly one file is written, at that path, and any
  \<open>parse\<close> that inverts \<^verbatim>\<open>JSON.stringify\<close> on the returned set reads that set
  back from the file's text; with the empty path no write is even attempted.
\<close>

theorem C7_persisted_file_matches_return:
  assumes "getBrowser w conn dc = (t0, Inr b)" and "newPage_ok w" and "goto_ok w url"
    and "wait_result w = WaitRejects"
    and "path = [] \<or> writeFile_ok w path (JSON_stringify w (observe (responses w)))"
    and "parse (JSON_stringify w (observe (responses w))) = Some (observe (responses w))"
  shows "snd (getCookies w url conn path dc) = Returned (observe (responses w)) \<and>
         (if path \<noteq> []
          then \<exists>text. writes (fst (getCookies w url conn path dc)) = [WriteFile path text] \<and>
                 files_written w (fst (getCookies w url conn path dc)) = [WriteFile path text] \<and>
                 parse text = Some (observe (responses w))
          else writes (fst (getCookies w url conn path dc)) = [] \<and>
               files_written w (fst (getCookies w url conn path dc)) = [])"
proof -
  let ?cs = "observe (responses w)"
  let ?c = "truthy (js_or (browserWSEndpoint conn) (env_WEBHOOK_URL w))"
  have q: "filter is_write t0 = []" "filter (write_succeeds w) t0 = []"
    using getBrowser_quiet [of w conn dc] getBrowser_writes_nothing [of w w conn dc] assms(1)
    by simp_all
  have t: "try_catch_finally w ?c b path =
      (WaitForFunction # map (\<lambda>r. ReadCookies) (responses w) @
         (if path = [] then [] else [WriteFile path (JSON_stringify w ?cs)]) @ cleanup w ?c b,
       Returned ?cs)"
    using assms(4,5) by (auto simp: try_catch_finally_def on_closure_def Let_def)
  have r: "snd (getCookies w url conn path dc) = Returned ?cs"
    by (simp add: getCookies_session [OF assms(1-3)] t)
  have w: "writes (fst (getCookies w url conn path dc)) =
       (if path = [] then [] else [WriteFile path (JSON_stringify w ?cs)])"
    by (simp add: getCookies_session [OF assms(1-3)] t writes_def q cleanup_quiet)
  have f: "files_written w (fst (getCookies w url conn path dc)) =
       (if path = [] then [] else [WriteFile path (JSON_stringify w ?cs)])"
    using assms(5)
    by (auto simp: getCookies_session [OF assms(1-3)] t files_written_def q
          cleanup_writes_nothing)
  show ?thesis using r w f assms(6) by auto
qed

theorem C7_persisted_file_matches_return_witness:
  "getBrowser w_example no_config [] = ([Launch ''/usr/bin/google-chrome'' False],
      Inr (Launched ''/usr/bin/google-chrome'')) \<and>
   newPage_ok w_example \<and> goto_ok w_example ''https://example.com'' \<and>
   wait_result w_example = WaitRejects \<and>
   writeFile_ok w_example ''./out.json'' (JSON_stringify w_example (observe (responses w_example))) \<and>
   example_parse (JSON_stringify w_example (observe (responses w_example))) =
     Some (observe (responses w_example)) \<and>
   snd (getCookies w_example ''https://example.com'' no_config ''./out.json'' []) =
     Returned [c_session, c_token] \<and>
   files_written w_example
     (fst (getCookies w_example ''https://example.com'' no_config ''./out.json'' [])) =
     [WriteFile ''./out.json'' ''session=abc123;token=xyz;''] \<and>
   example_parse ''session=abc123;token=xyz;'' = Some [c_session, c_token] \<and>
   snd (getCookies w_example ''https://example.com'' no_config [] []) =
     Returned [c_session, c_token] \<and>
   writes (fst (getCookies w_example ''https://example.com'' no_config [] [])) = []"
proof -
  have g: "getBrowser w_example no_config [] = ([Launch ''/usr/bin/google-chrome'' False],
      Inr (Launched ''/usr/bin/google-chrome''))"
    by (simp add: model_defs w_example_def no_config_def)
  have n: "newPage_ok w_example" by (simp add: w_example_def)
  have v: "goto_ok w_example ''https://example.com''" by (simp add: w_example_def)
  have c: "wait_result w_example = WaitRejects" by (simp add: w_example_def)
  have o: "observe (responses w_example) = [c_session, c_token]"
    by (simp add: observe_def w_example_def)
  have s: "JSON_stringify w_example [c_session, c_token] = ''session=abc123;token=xyz;''"
    by (simp add: w_example_def example_stringify_def c_session_def c_token_def)
  have k: "writeFile_ok w_example ''./out.json''
             (JSON_stringify w_example (observe (responses w_example)))"
    by (simp add: w_example_def)
  have k1: "''./out.json'' = [] \<or> writeFile_ok w_example ''./out.json''
             (JSON_stringify w_example (observe (responses w_example)))"
    using k by simp
  have k0: "([]::string) = [] \<or> writeFile_ok w_example []
             (JSON_stringify w_example (observe (responses w_example)))"
    by simp
  have p: "example_parse (JSON_stringify w_example (observe (responses w_example))) =
           Some (observe (responses w_example))"
    unfolding o by (simp add: example_parse_def w_example_def)
  have fw: "files_written w_example
     (fst (getCookies w_example ''https://example.com'' no_config ''./out.json'' [])) =
     [WriteFile ''./out.json'' ''session=abc123;token=xyz;'']"
    by (simp add: model_defs files_written_def w_example_def no_config_def
          example_stringify_def c_session_def c_token_def)
  show ?thesis
    using g n v c k p fw
      C7_persisted_file_matches_return [where parse = example_parse, OF g n v c k1 p]
      C7_persisted_file_matches_return [where parse = example_parse, OF g n v c k0 p]
    unfolding o s by simp
qed

text \<open>
  C8 says that the initial cookies are applied in one batched call (none when the array
  is empty), and that a failure of this call aborts at once, with cleanup of the existing
  handle still attempted. The first part holds (\<open>getBrowser_seeds_once\<close>), and the
  failure propagates at once (\<open>seeding_failure_propagates\<close>); but no cleanup is
  attempted: \<^verbatim>\<open>getBrowser\<close> is awaited before the \<^verbatim>\<open>try\<close>. Here a browser is
  launched, the one \<^verbatim>\<open>setCookie\<close> call fails, and the trace ends without
  \<^verbatim>\<open>browser.close()\<close>.
\<close>

theorem C8_seeding_failure_leaves_browser_open:
  "getCookies w_seeding_fails ''https://example.com'' no_config [] [c_session] =
     ([Launch ''/usr/bin/google-chrome'' False, SetCookie [c_session]], Threw SeedingError) \<and>
   seedings (fst (getCookies w_seeding_fails ''https://example.com'' no_config [] [c_session])) =
     [SetCookie [c_session]] \<and>
   releases (fst (getCookies w_seeding_fails ''https://example.com'' no_config [] [c_session])) = []"
  by (simp add: model_defs seedings_def releases_def w_seeding_fails_def w_example_def
        no_config_def)

text \<open>
  C9: when the endpoint parameter is absent or empty and \<^verbatim>\<open>WEBHOOK_URL\<close> is unset
  or empty, and the executable path resolves to a non-empty string \<open>p\<close>, either as the
  parameter \<^verbatim>\<open>connectionData.executablePath\<close> or, with that parameter absent or
  empty, as the environment variable \<^verbatim>\<open>PUPPETEER_EXECUTABLE_PATH\<close>, the only
  acquisition call is \<^verbatim>\<open>puppeteer.launch\<close> of \<open>p\<close> with \<^verbatim>\<open>headless: false\<close>;
  \<^verbatim>\<open>puppeteer.connect\<close> is never called.
\<close>

theorem C9_local_launch_visible:
  assumes "browserWSEndpoint conn = None \<or> browserWSEndpoint conn = Some []"
    and "env_WEBHOOK_URL w = None \<or> env_WEBHOOK_URL w = Some []"
    and "(executablePath conn = Some p \<and> p \<noteq> []) \<or>
         ((executablePath conn = None \<or> executablePath conn = Some []) \<and>
          env_PUPPETEER_EXECUTABLE_PATH w = Some p \<and> p \<noteq> [])"
  shows "launches (fst (getBrowser w conn cs)) = [Launch p False] \<and>
         attaches (fst (getBrowser w conn cs)) = [] \<and>
         launches (fst (getCookies w url conn path cs)) = [Launch p False] \<and>
         attaches (fst (getCookies w url conn path cs)) = []"
proof -
  have r: "\<not> truthy (js_or (browserWSEndpoint conn) (env_WEBHOOK_URL w))"
    using assms(1,2) by (auto simp: js_or_fallback)
  from assms(3) have p: "js_or (executablePath conn) (env_PUPPETEER_EXECUTABLE_PATH w) = Some p"
    "p \<noteq> []"
    by (auto simp: js_or_param js_or_fallback)
  have a: "attaches (fst (acquire w conn)) = []"
    by (simp add: acquire_local [OF r p] attaches_def)
  have l: "launches (fst (acquire w conn)) = [Launch p False]"
    by (simp add: acquire_local [OF r p] launches_def)
  show ?thesis
    using a l
    by (simp add: getCookies_attaches getCookies_launches getBrowser_attaches getBrowser_launches)
qed

theorem C9_local_launch_visible_witness:
  "browserWSEndpoint conn_local = None \<and> env_WEBHOOK_URL w_example = None \<and>
   executablePath conn_local = Some ''/opt/chromium/chrome'' \<and>
   env_PUPPETEER_EXECUTABLE_PATH w_example = Some ''/usr/bin/google-chrome'' \<and>
   launches (fst (getBrowser w_example conn_local [])) = [Launch ''/opt/chromium/chrome'' False] \<and>
   attaches (fst (getBrowser w_example conn_local [])) = [] \<and>
   browserWSEndpoint conn_empty_strings = Some [] \<and>
   executablePath conn_empty_strings = Some [] \<and>
   launches (fst (getBrowser w_example conn_empty_strings [])) =
     [Launch ''/usr/bin/google-chrome'' False] \<and>
   attaches (fst (getBrowser w_example conn_empty_strings [])) = [] \<and>
   launches (fst (getCookies w_example ''https://example.com'' conn_empty_strings [] [])) =
     [Launch ''/usr/bin/google-chrome'' False] \<and>
   attaches (fst (getCookies w_example ''https://example.com'' conn_empty_strings [] [])) = []"
proof -
  have c: "browserWSEndpoint conn_local = None"
    "executablePath conn_local = Some ''/opt/chromium/chrome''"
    "browserWSEndpoint conn_empty_strings = Some []"
    "executablePath conn_empty_strings = Some []"
    by (simp_all add: conn_local_def conn_empty_strings_def)
  have e: "env_WEBHOOK_URL w_example = None"
    "env_PUPPETEER_EXECUTABLE_PATH w_example = Some ''/usr/bin/google-chrome''"
    by (simp_all add: w_example_def)
  have r1: "browserWSEndpoint conn_local = None \<or> browserWSEndpoint conn_local = Some []"
    using c by simp
  have r2: "browserWSEndpoint conn_empty_strings = None \<or>
            browserWSEndpoint conn_empty_strings = Some []"
    using c by simp
  have v: "env_WEBHOOK_URL w_example = None \<or> env_WEBHOOK_URL w_example = Some []"
    using e by simp
  have p1: "(executablePath conn_local = Some ''/opt/chromium/chrome'' \<and>
             ''/opt/chromium/chrome'' \<noteq> []) \<or>
         ((executablePath conn_local = None \<or> executablePath conn_local = Some []) \<and>
          env_PUPPETEER_EXECUTABLE_PATH w_example = Some ''/opt/chromium/chrome'' \<and>
          ''/opt/chromium/chrome'' \<noteq> [])"
    using c by simp
  have p2: "(executablePath conn_empty_strings = Some ''/usr/bin/google-chrome'' \<and>
             ''/usr/bin/google-chrome'' \<noteq> []) \<or>
         ((executablePath conn_empty_strings = None \<or> executablePath conn_empty_strings = Some []) \<and>
          env_PUPPETEER_EXECUTABLE_PATH w_example = Some ''/usr/bin/google-chrome'' \<and>
          ''/usr/bin/google-chrome'' \<noteq> [])"
    using c e by simp
  show ?thesis
    using c e C9_local_launch_visible [OF r1 v p1, of "[]" "''https://example.com''" "[]"]
      C9_local_launch_visible [OF r2 v p2, of "[]" "''https://example.com''" "[]"]
    by simp
qed









end
